theory Spec2Isabelle
  imports Main
begin

section \<open>JavaScript values shared by the components\<close>

text \<open>
  The components are React code. Three features of the language matter below: reading an
  identifier that no enclosing scope binds throws \<open>ReferenceError\<close>, reading a property
  of \<open>undefined\<close> throws \<open>TypeError\<close>, and arithmetic on a value that is not a number
  yields \<open>NaN\<close>, which every relational comparison answers with \<open>false\<close>.
\<close>

datatype js_error = ReferenceError string | TypeError string

text \<open>A number: \<open>None\<close> is \<open>NaN\<close>, \<open>Some n\<close> an integral value.\<close>

type_synonym js_number = "int option"

definition js_sub :: "js_number \<Rightarrow> js_number \<Rightarrow> js_number" where
  "js_sub a b = (case a of None \<Rightarrow> None | Some x \<Rightarrow> (case b of None \<Rightarrow> None | Some y \<Rightarrow> Some (x - y)))"

definition js_lt :: "js_number \<Rightarrow> js_number \<Rightarrow> bool" where
  "js_lt a b = (case a of None \<Rightarrow> False | Some x \<Rightarrow> (case b of None \<Rightarrow> False | Some y \<Rightarrow> x < y))"

definition js_gt :: "js_number \<Rightarrow> js_number \<Rightarrow> bool" where
  "js_gt a b = js_lt b a"

text \<open>
  A \<open>moment\<close> object is used only through its numeric value (\<open>valueOf\<close>): milliseconds
  since the epoch, or \<open>NaN\<close> for an invalid date.
\<close>

type_synonym moment = js_number

text \<open>
  The other values the components pass around: \<open>undefined\<close>, \<open>null\<close>, booleans and
  strings, with the truth value \<open>||\<close> and \<open>&&\<close> read them by. Both operators return
  one of their operands.
\<close>

datatype js_value = Undefined | Null | Bool bool | Str string

definition truthy :: "js_value \<Rightarrow> bool" where
  "truthy v = (case v of Undefined \<Rightarrow> False | Null \<Rightarrow> False | Bool b \<Rightarrow> b | Str s \<Rightarrow> s \<noteq> [])"

definition js_or :: "js_value \<Rightarrow> js_value \<Rightarrow> js_value" where
  "js_or a b = (if truthy a then a else b)"

definition js_and :: "js_value \<Rightarrow> js_value \<Rightarrow> js_value" where
  "js_and a b = (if truthy a then b else a)"

section \<open>Library functions: lodash groupBy and Array.prototype.sort\<close>

text \<open>
  \<open>groupBy\<close> is lodash's, a library the components import, modelled from its documented
  behaviour (the one the specification's grouping contract restates). It walks the
  collection in order; a value whose key the result already has is pushed onto that
  key's array, a value with a new key starts a new array under a new property. The
  result is an object: here its own properties in insertion order, which is the order
  \<open>Object.keys\<close> and \<open>Object.entries\<close> list them in for keys that are not array indices
  (week-start dates and weekday names are not).
\<close>

fun push_group :: "string \<Rightarrow> 'a \<Rightarrow> (string \<times> 'a list) list \<Rightarrow> (string \<times> 'a list) list" where
  "push_group k v [] = [(k, [v])]"
| "push_group k v ((k', vs) # rest) =
     (if k' = k then (k', vs @ [v]) # rest else (k', vs) # push_group k v rest)"

definition groupBy :: "'a list \<Rightarrow> ('a \<Rightarrow> string) \<Rightarrow> (string \<times> 'a list) list" where
  "groupBy collection iteratee =
     foldl (\<lambda>result v. push_group (iteratee v) v result) [] collection"

definition Object_keys :: "(string \<times> 'v) list \<Rightarrow> string list" where
  "Object_keys obj = map fst obj"

definition Object_entries :: "(string \<times> 'v) list \<Rightarrow> (string \<times> 'v) list" where
  "Object_entries obj = obj"

text \<open>
  \<open>Array.prototype.sort\<close> with a comparison function. The function's result is read as a
  number, \<open>NaN\<close> counting as \<open>0\<close>, and the sort is stable: for a comparison function that
  is a consistent order the result is the one arrangement that is ordered by it and keeps
  elements that compare equal in their input order, which is what stable insertion
  computes. For an inconsistent comparison function the language leaves the order to
  the implementation; nothing below depends on such a case.
\<close>

definition sort_order :: "js_number \<Rightarrow> int" where
  "sort_order v = (case v of None \<Rightarrow> 0 | Some n \<Rightarrow> n)"

fun insert_sorted :: "('a \<Rightarrow> 'a \<Rightarrow> js_number) \<Rightarrow> 'a \<Rightarrow> 'a list \<Rightarrow> 'a list" where
  "insert_sorted comparefn x [] = [x]"
| "insert_sorted comparefn x (y # ys) =
     (if sort_order (comparefn x y) \<le> 0 then x # y # ys else y # insert_sorted comparefn x ys)"

definition Array_sort :: "('a \<Rightarrow> 'a \<Rightarrow> js_number) \<Rightarrow> 'a list \<Rightarrow> 'a list" where
  "Array_sort comparefn xs = foldr (insert_sorted comparefn) xs []"

section \<open>Course.js\<close>

subsection \<open>Data\<close>

record spacetime =
  spacetime_dayOfWeek :: string
  spacetime_startTime :: string
  spacetime_location :: string

record csm_section =
  section_id :: int
  defaultSpacetime :: spacetime
  capacity :: int
  enrolledStudents :: int

text \<open>
  A course as the component holds it; the two window fields are the values
  \<open>moment(course.enrollmentStart)\<close> and \<open>moment(course.enrollmentEnd)\<close>.
\<close>

record course =
  course_id :: int
  course_name :: string
  enrollmentStart :: moment
  enrollmentEnd :: moment

record profile =
  profile_course :: int

text \<open>
  The state of the \<open>Course\<close> component. \<open>sections\<close> is the object built by
  \<open>groupBy\<close>: its own string keys in insertion order, each with its array.
\<close>

record course_state =
  course :: course
  sections :: "(string \<times> csm_section list) list"
  enrolled :: bool
  enrollmentOpen :: bool
  viewSection :: "int option"

definition initial_state :: "course \<Rightarrow> course_state" where
  "initial_state c =
     \<lparr>course = c, sections = [], enrolled = False, enrollmentOpen = False, viewSection = None\<rparr>"

subsection \<open>updateCourse: the enrollment window\<close>

text \<open>
  \<open>enrollmentOpen: now > enrollmentStart && now < enrollmentEnd\<close>, set synchronously
  at the start of \<open>updateCourse\<close>.
\<close>

definition isOpen :: "moment \<Rightarrow> moment \<Rightarrow> moment \<Rightarrow> bool" where
  "isOpen now windowStart windowEnd = (js_gt now windowStart \<and> js_lt now windowEnd)"

definition updateCourse_window :: "moment \<Rightarrow> course_state \<Rightarrow> course_state" where
  "updateCourse_window now st =
     st\<lparr>enrollmentOpen := isOpen now (enrollmentStart (course st)) (enrollmentEnd (course st))\<rparr>"

subsection \<open>updateCourse: the profiles continuation\<close>

text \<open>
  The continuation of \<open>fetch("/scheduler/profiles/")\<close> is the arrow function
  \<open>profiles => { this.setState({enrolled: profiles.map(profile => profile.course)
  .includes(state.course.id)}) }\<close>. It reads the identifier \<open>state\<close>, not
  \<open>this.state\<close>. The names bound around it are its parameter \<open>profiles\<close>, the locals
  \<open>now\<close>, \<open>enrollmentStart\<close>, \<open>enrollmentEnd\<close> of \<open>updateCourse\<close>, and the imports
  and top-level declarations of the module (\<open>React\<close>, \<open>Redirect\<close>, \<open>groupBy\<close>,
  \<open>moment\<close>, \<open>post\<close>, \<open>alert_modal\<close>, \<open>API_TIME_FORMAT\<close>, \<open>DISPLAY_TIME_FORMAT\<close>,
  \<open>dayOfWeek\<close>, \<open>CourseDetail\<close>, \<open>Course\<close>, \<open>Day\<close>, \<open>SectionEnroll\<close>); \<open>state\<close> is
  none of them, so the lookup falls through to the global object, given here as a map
  from names to the state-shaped value such a global would hold. A browser defines no
  global of that name: the map is empty there.
\<close>

definition resolve_global :: "(string \<rightharpoonup> 'v) \<Rightarrow> string \<Rightarrow> js_error + 'v" where
  "resolve_global global x =
     (case global x of None \<Rightarrow> Inl (ReferenceError x) | Some v \<Rightarrow> Inr v)"

definition array_includes :: "'a list \<Rightarrow> 'a \<Rightarrow> bool" where
  "array_includes xs x \<longleftrightarrow> x \<in> set xs"

definition profiles_continuation ::
    "(string \<rightharpoonup> course_state) \<Rightarrow> course_state \<Rightarrow> profile list \<Rightarrow> js_error + course_state" where
  "profiles_continuation global this_state profiles =
     (let courses = map profile_course profiles in
      case resolve_global global ''state'' of
        Inl e \<Rightarrow> Inl e
      | Inr state \<Rightarrow> Inr (this_state\<lparr>enrolled := array_includes courses (course_id (course state))\<rparr>))"

text \<open>
  An exception inside a \<open>then\<close> callback rejects the promise; no \<open>catch\<close> follows, so the
  component state stays as it was.
\<close>

definition updateCourse_profiles ::
    "(string \<rightharpoonup> course_state) \<Rightarrow> course_state \<Rightarrow> profile list \<Rightarrow> course_state" where
  "updateCourse_profiles global st profiles =
     (case profiles_continuation global st profiles of Inl e \<Rightarrow> st | Inr st' \<Rightarrow> st')"

subsection \<open>updateCourse: the sections continuation\<close>

definition updateCourse_sections :: "course_state \<Rightarrow> csm_section list \<Rightarrow> course_state" where
  "updateCourse_sections st fetched =
     st\<lparr>sections := groupBy fetched (\<lambda>s. spacetime_dayOfWeek (defaultSpacetime s))\<rparr>"

subsection \<open>render: days in week order, sections by start time\<close>

definition API_TIME_FORMAT :: string where
  "API_TIME_FORMAT = ''HH:mm:ss''"

definition dayOfWeek :: "(string \<times> int) list" where
  "dayOfWeek =
     [(''Monday'', 0), (''Tuesday'', 1), (''Wednesday'', 2), (''Thursday'', 3),
      (''Friday'', 4), (''Saturday'', 5), (''Sunday'', 6)]"

text \<open>
  \<open>dayOfWeek[item[0]]\<close> is \<open>undefined\<close> for a key the table lacks, and the difference
  is \<open>NaN\<close> then.
\<close>

definition dayComparator :: "string \<times> 'v \<Rightarrow> string \<times> 'v \<Rightarrow> js_number" where
  "dayComparator item1 item2 =
     (let day1 = map_of dayOfWeek (fst item1); day2 = map_of dayOfWeek (fst item2)
      in js_sub day1 day2)"

text \<open>
  \<open>Day\<close> sorts its sections by \<open>moment(startTime, API_TIME_FORMAT)\<close>. The parser belongs
  to the moment library and is a parameter: the time string and the format to the
  moment's numeric value.
\<close>

definition Day_sections :: "(string \<Rightarrow> string \<Rightarrow> moment) \<Rightarrow> csm_section list \<Rightarrow> csm_section list" where
  "Day_sections moment_parse props_sections =
     Array_sort
       (\<lambda>section1 section2.
          (let time1 = moment_parse (spacetime_startTime (defaultSpacetime section1)) API_TIME_FORMAT;
               time2 = moment_parse (spacetime_startTime (defaultSpacetime section2)) API_TIME_FORMAT
           in js_sub time1 time2))
       props_sections"

text \<open>
  What \<open>render\<close> returns: a redirect to the section viewed, or the day tabs and under
  each day its sections in the order \<open>Day\<close> lists them.
\<close>

datatype course_view =
  Redirect_to int
  | Course_days "string list" "(string \<times> csm_section list) list"

definition render_days ::
    "(string \<Rightarrow> string \<Rightarrow> moment) \<Rightarrow> course_state \<Rightarrow> (string \<times> csm_section list) list" where
  "render_days moment_parse st =
     map (\<lambda>item. (fst item, Day_sections moment_parse (snd item)))
       (Array_sort dayComparator (Object_entries (sections st)))"

definition render_dayHeaders :: "course_state \<Rightarrow> string list" where
  "render_dayHeaders st = map fst (Array_sort dayComparator (Object_entries (sections st)))"

definition Course_render :: "(string \<Rightarrow> string \<Rightarrow> moment) \<Rightarrow> course_state \<Rightarrow> course_view" where
  "Course_render moment_parse st =
     (case viewSection st of
        Some i \<Rightarrow> Redirect_to i
      | None \<Rightarrow> Course_days (render_dayHeaders st) (render_days moment_parse st))"

subsection \<open>SectionEnroll: availability and the enroll button\<close>

record enroll_props =
  props_enrolled :: bool
  props_enrollmentOpen :: bool
  props_section :: csm_section

definition available :: "enroll_props \<Rightarrow> int" where
  "available props = capacity (props_section props) - enrolledStudents (props_section props)"

definition pluralized_spot :: "enroll_props \<Rightarrow> string" where
  "pluralized_spot props = (if available props = 1 then ''spot'' else ''spots'')"

definition disabled :: "enroll_props \<Rightarrow> bool" where
  "disabled props = (props_enrolled props \<or> \<not> props_enrollmentOpen props \<or> available props = 0)"

text \<open>The props \<open>Course.render\<close> and \<open>Day\<close> hand down to a section's \<open>SectionEnroll\<close>.\<close>

definition props_of :: "course_state \<Rightarrow> csm_section \<Rightarrow> enroll_props" where
  "props_of st s =
     \<lparr>props_enrolled = enrolled st, props_enrollmentOpen = enrollmentOpen st, props_section = s\<rparr>"

subsection \<open>SectionEnroll: the response of the enroll request\<close>

text \<open>
  A property read off a decoded JSON object is \<open>undefined\<close> when the object has no such
  property. The body of a response is such an object: its properties, each with a string
  value.
\<close>

type_synonym json_object = "(string \<times> string) list"

definition get_prop :: "json_object \<Rightarrow> string \<Rightarrow> js_value" where
  "get_prop obj k = (case map_of obj k of None \<Rightarrow> Undefined | Some v \<Rightarrow> Str v)"

text \<open>Decimal digits of a number, as a template literal prints an integer.\<close>

definition digit_char :: "nat \<Rightarrow> char" where
  "digit_char d = ''0123456789'' ! d"

fun digits :: "nat \<Rightarrow> string" where
  "digits n = (if n < 10 then [digit_char n] else digits (n div 10) @ [digit_char (n mod 10)])"

declare digits.simps [simp del]

definition Number_toString :: "int \<Rightarrow> string" where
  "Number_toString i = (if i < 0 then CHR ''-'' # digits (nat (- i)) else digits (nat i))"

text \<open>
  What the second \<open>then\<close> callback of \<open>handleClick\<close> does: one call of \<open>alert_modal\<close>
  (its message, and the section its close callback navigates to, if any), the values
  written with \<open>console.log\<close>, and the call of \<open>props.update\<close>.
\<close>

record click_outcome =
  alert_message :: string
  alert_onClose :: "int option"
  console_log :: "js_value list"
  update_called :: bool

definition already_enrolled_message :: string where
  "already_enrolled_message =
     ''You are already enrolled in this course. You can only enroll in one section per course.''"

definition not_open_message :: string where
  "not_open_message = ''This course is not currently open for enrollment.''"

definition unknown_error_message :: string where
  "unknown_error_message = ''An unknown error has occurred.''"

text \<open>The \<open>switch (body.shortCode)\<close>: the message and what the branch logs.\<close>

definition errorMessage_switch :: "json_object \<Rightarrow> string \<times> js_value list" where
  "errorMessage_switch body =
     (if get_prop body ''shortCode'' = Str ''already_enrolled'' then (already_enrolled_message, [])
      else if get_prop body ''shortCode'' = Str ''course_closed'' then (not_open_message, [])
      else if get_prop body ''shortCode'' = Str ''section_full'' then (not_open_message, [])
      else (unknown_error_message, [Str unknown_error_message, get_prop body ''message'']))"

text \<open>\<open>startTime\<close> is the section's start time in the display format, as \<open>moment\<close> prints it.\<close>

definition handleClick_response :: "csm_section \<Rightarrow> string \<Rightarrow> bool \<Rightarrow> json_object \<Rightarrow> click_outcome" where
  "handleClick_response s startTime ok body =
     (if \<not> ok then
        \<lparr>alert_message = fst (errorMessage_switch body), alert_onClose = None,
         console_log = snd (errorMessage_switch body), update_called = True\<rparr>
      else
        \<lparr>alert_message = ''You've successfully enrolled in section '' @ Number_toString (section_id s)
           @ '' at '' @ spacetime_location (defaultSpacetime s) @ '', '' @ startTime,
         alert_onClose = Some (section_id s), console_log = [], update_called = True\<rparr>)"

section \<open>MentorSection.js\<close>

subsection \<open>MentorSection: loading students and attendances\<close>

record attendance =
  attendance_id :: int
  attendance_weekStart :: string
  attendance_presence :: string

text \<open>An element of the array \<open>/sections/{id}/students/\<close> answers with.\<close>

record student =
  student_name :: string
  student_email :: string
  student_id :: int
  student_attendances :: "attendance list"

record student_ref =
  ref_name :: string
  ref_id :: int

text \<open>\<open>{...attendance, student: {name, id}}\<close>\<close>

record attendance_row =
  row_id :: int
  weekStart :: string
  presence :: string
  row_student :: student_ref

record roster_entry =
  roster_name :: string
  roster_email :: string
  roster_id :: int

record mentor_state =
  state_students :: "roster_entry list"
  state_attendances :: "(string \<times> attendance_row list) list"
  state_loaded :: bool

definition flatMap :: "('a \<Rightarrow> 'b list) \<Rightarrow> 'a list \<Rightarrow> 'b list" where
  "flatMap f xs = concat (map f xs)"

definition flat_attendances :: "student list \<Rightarrow> attendance_row list" where
  "flat_attendances data =
     flatMap (\<lambda>s. map (\<lambda>a. \<lparr>row_id = attendance_id a, weekStart = attendance_weekStart a,
                               presence = attendance_presence a,
                               row_student = \<lparr>ref_name = student_name s, ref_id = student_id s\<rparr>\<rparr>)
                        (student_attendances s)) data"

text \<open>The flat list is reversed as a whole, then grouped by \<open>weekStart\<close>.\<close>

definition group_attendances :: "attendance_row list \<Rightarrow> (string \<times> attendance_row list) list" where
  "group_attendances flat = groupBy (rev flat) weekStart"

definition MentorSection_loading :: mentor_state where
  "MentorSection_loading = \<lparr>state_students = [], state_attendances = [], state_loaded = False\<rparr>"

definition MentorSection_loaded :: "student list \<Rightarrow> mentor_state" where
  "MentorSection_loaded data =
     \<lparr>state_students =
        map (\<lambda>s. \<lparr>roster_name = student_name s, roster_email = student_email s,
                    roster_id = student_id s\<rparr>) data,
      state_attendances = group_attendances (flat_attendances data),
      state_loaded = True\<rparr>"

subsection \<open>parseDate\<close>

definition MONTH_NUMBERS :: "(string \<times> nat) list" where
  "MONTH_NUMBERS =
     [(''Jan'', 1), (''Feb'', 2), (''Mar'', 3), (''Apr'', 4), (''May'', 5), (''Jun'', 6),
      (''Jul'', 7), (''Aug'', 8), (''Sep'', 9), (''Oct'', 10), (''Nov'', 11), (''Dec'', 12)]"

text \<open>
  \<open>String.prototype.split\<close> with a one-character separator: the pieces between the
  separators, at least one. Strings are ASCII here, and \<open>trim\<close> strips the ASCII white
  space and line terminators (tab, line feed, vertical tab, form feed, carriage return,
  space).
\<close>

fun js_split :: "char \<Rightarrow> string \<Rightarrow> string list" where
  "js_split sep [] = [[]]"
| "js_split sep (c # cs) =
     (if c = sep then [] # js_split sep cs
      else (case js_split sep cs of [] \<Rightarrow> [[c]] | w # ws \<Rightarrow> (c # w) # ws))"

definition is_white_space :: "char \<Rightarrow> bool" where
  "is_white_space c \<longleftrightarrow> c \<in> set [CHR 0x09, CHR 0x0A, CHR 0x0B, CHR 0x0C, CHR 0x0D, CHR '' '']"

definition trim :: "string \<Rightarrow> string" where
  "trim s = rev (dropWhile is_white_space (rev (dropWhile is_white_space s)))"

text \<open>
  \<open>const [month, dayAndYear] = dateString.split(".")\<close>: without a dot \<open>dayAndYear\<close> is
  \<open>undefined\<close> and \<open>dayAndYear.split\<close> throws. A month missing from the table prints as
  \<open>undefined\<close> (the names of \<open>Object.prototype\<close>'s properties, which the frozen object
  inherits, are not modelled).
\<close>

definition parseDate :: "string \<Rightarrow> js_error + string" where
  "parseDate dateString =
     (case js_split CHR ''.'' dateString of
        month # dayAndYear # _ \<Rightarrow>
          (case js_split CHR '','' dayAndYear of
             [] \<Rightarrow> Inl (TypeError ''trim'')
           | d # _ \<Rightarrow>
               Inr ((case map_of MONTH_NUMBERS month of
                       None \<Rightarrow> ''undefined''
                     | Some m \<Rightarrow> Number_toString (int m)) @ ''/'' @ trim d))
      | _ \<Rightarrow> Inl (TypeError ''split''))"

subsection \<open>MentorSectionAttendance: the selected week\<close>

definition index0 :: "string list \<Rightarrow> js_value" where
  "index0 ks = (case ks of [] \<Rightarrow> Undefined | k # _ \<Rightarrow> Str k)"

text \<open>
  \<open>this.state.selectedWeek || (loaded && Object.keys(attendances)[0])\<close>; the component
  starts with \<open>selectedWeek: null\<close>.
\<close>

definition selectedWeek :: "js_value \<Rightarrow> bool \<Rightarrow> (string \<times> 'v) list \<Rightarrow> js_value" where
  "selectedWeek state_selectedWeek loaded attendances =
     js_or state_selectedWeek (js_and (Bool loaded) (index0 (Object_keys attendances)))"

text \<open>
  What \<open>render\<close> shows: the loading line, or the date tabs (label, active) and the table
  rows (key, student name, presence, colour suffix) of the selected week. An exception
  thrown while rendering is the \<open>Inl\<close> result. \<open>ATTENDANCE_LABELS\<close> is imported from
  \<open>./Section\<close> and is a parameter here: presence code to label and colour suffix.
\<close>

datatype attendance_view =
  Loading_attendances
  | Attendance_table "(string \<times> bool) list" "(int \<times> string \<times> string \<times> string) list"

fun traverse :: "('a \<Rightarrow> js_error + 'b) \<Rightarrow> 'a list \<Rightarrow> js_error + 'b list" where
  "traverse f [] = Inr []"
| "traverse f (x # xs) =
     (case f x of
        Inl e \<Rightarrow> Inl e
      | Inr y \<Rightarrow> (case traverse f xs of Inl e \<Rightarrow> Inl e | Inr ys \<Rightarrow> Inr (y # ys)))"

definition render_tab :: "js_value \<Rightarrow> string \<Rightarrow> js_error + (string \<times> bool)" where
  "render_tab selected k =
     (case parseDate k of Inl e \<Rightarrow> Inl e | Inr label \<Rightarrow> Inr (label, Str k = selected))"

definition render_row ::
    "(string \<rightharpoonup> string \<times> string) \<Rightarrow> attendance_row \<Rightarrow> js_error + (int \<times> string \<times> string \<times> string)" where
  "render_row labels a =
     (case labels (presence a) of
        None \<Rightarrow> Inl (TypeError ''ATTENDANCE_LABELS[presence]'')
      | Some (label, css) \<Rightarrow> Inr (row_id a, ref_name (row_student a), presence a, css))"

text \<open>\<open>selectedWeek && attendances[selectedWeek].map(...)\<close>\<close>

definition render_rows ::
    "(string \<rightharpoonup> string \<times> string) \<Rightarrow> js_value \<Rightarrow> (string \<times> attendance_row list) list
      \<Rightarrow> js_error + (int \<times> string \<times> string \<times> string) list" where
  "render_rows labels selected attendances =
     (if \<not> truthy selected then Inr []
      else (case map_of attendances
                   (case selected of Str k \<Rightarrow> k | Bool b \<Rightarrow> ''true'' | _ \<Rightarrow> [])  of
              None \<Rightarrow> Inl (TypeError ''map'')
            | Some rs \<Rightarrow> traverse (render_row labels) rs))"

definition render_attendance ::
    "(string \<rightharpoonup> string \<times> string) \<Rightarrow> js_value \<Rightarrow> bool \<Rightarrow> (string \<times> attendance_row list) list
      \<Rightarrow> js_error + attendance_view" where
  "render_attendance labels state_selectedWeek loaded attendances =
     (let selected = selectedWeek state_selectedWeek loaded attendances in
      if loaded then
        (case traverse (render_tab selected) (Object_keys attendances) of
           Inl e \<Rightarrow> Inl e
         | Inr tabs \<Rightarrow>
             (case render_rows labels selected attendances of
                Inl e \<Rightarrow> Inl e
              | Inr rows \<Rightarrow> Inr (Attendance_table tabs rows)))
      else Inr Loading_attendances)"

section \<open>StudentSection.js: DropSection\<close>

text \<open>
  The component holds one of three stages and starts at \<open>INITIAL\<close>. What it renders
  decides which handlers a user can reach: the Drop button at \<open>INITIAL\<close>, the modal
  (its overlay closes it) with the Confirm button at \<open>CONFIRM\<close>, a redirect and no
  control at \<open>DROPPED\<close>. \<open>performDrop\<close> sends \<open>PATCH students/{profileId}/drop\<close> and sets
  the stage to \<open>DROPPED\<close> in the \<open>then\<close> callback of the request's promise; no handler is
  attached for a rejected promise. Besides the stage the model counts the requests sent
  and those still pending, so that a completion is an event of its own.
\<close>

datatype stage = INITIAL | CONFIRM | DROPPED

record drop_section =
  stage :: stage
  drop_calls :: nat
  in_flight :: nat

datatype drop_event =
  Click_Drop
  | Close_Modal
  | Click_Confirm
  | Drop_Fulfilled
  | Drop_Rejected

definition DropSection_initial :: drop_section where
  "DropSection_initial = \<lparr>stage = INITIAL, drop_calls = 0, in_flight = 0\<rparr>"

text \<open>The handlers \<open>render\<close> attaches at a stage.\<close>

fun rendered_handlers :: "stage \<Rightarrow> drop_event list" where
  "rendered_handlers INITIAL = [Click_Drop]"
| "rendered_handlers CONFIRM = [Close_Modal, Click_Confirm]"
| "rendered_handlers DROPPED = []"

definition performDrop :: "drop_section \<Rightarrow> drop_section" where
  "performDrop s = s\<lparr>drop_calls := drop_calls s + 1, in_flight := in_flight s + 1\<rparr>"

text \<open>
  One event: \<open>None\<close> when it cannot happen (the handler is not rendered, or no request is
  pending).
\<close>

fun drop_step :: "drop_section \<Rightarrow> drop_event \<Rightarrow> drop_section option" where
  "drop_step s Click_Drop =
     (if Click_Drop \<in> set (rendered_handlers (stage s)) then Some (s\<lparr>stage := CONFIRM\<rparr>) else None)"
| "drop_step s Close_Modal =
     (if Close_Modal \<in> set (rendered_handlers (stage s)) then Some (s\<lparr>stage := INITIAL\<rparr>) else None)"
| "drop_step s Click_Confirm =
     (if Click_Confirm \<in> set (rendered_handlers (stage s)) then Some (performDrop s) else None)"
| "drop_step s Drop_Fulfilled =
     (if 0 < in_flight s then Some (s\<lparr>stage := DROPPED, in_flight := in_flight s - 1\<rparr>) else None)"
| "drop_step s Drop_Rejected =
     (if 0 < in_flight s then Some (s\<lparr>in_flight := in_flight s - 1\<rparr>) else None)"

fun drop_run :: "drop_section \<Rightarrow> drop_event list \<Rightarrow> drop_section option" where
  "drop_run s [] = Some s"
| "drop_run s (e # es) = (case drop_step s e of None \<Rightarrow> None | Some s' \<Rightarrow> drop_run s' es)"

definition user_event :: "drop_event \<Rightarrow> bool" where
  "user_event e \<longleftrightarrow> e \<in> set [Click_Drop, Close_Modal, Click_Confirm]"

section \<open>Notions used to state the properties\<close>

text \<open>The weekday a section is grouped under, and the value its start time is sorted by.\<close>

definition section_day :: "csm_section \<Rightarrow> string" where
  "section_day s = spacetime_dayOfWeek (defaultSpacetime s)"

definition section_time :: "(string \<Rightarrow> string \<Rightarrow> moment) \<Rightarrow> csm_section \<Rightarrow> moment" where
  "section_time moment_parse s = moment_parse (spacetime_startTime (defaultSpacetime s)) API_TIME_FORMAT"

definition day_number :: "string \<Rightarrow> int" where
  "day_number d = (case map_of dayOfWeek d of None \<Rightarrow> 0 | Some n \<Rightarrow> n)"

definition start_number :: "(string \<Rightarrow> string \<Rightarrow> moment) \<Rightarrow> csm_section \<Rightarrow> int" where
  "start_number moment_parse s = (case section_time moment_parse s of None \<Rightarrow> 0 | Some t \<Rightarrow> t)"

text \<open>
  The calendar date a week-start string \<open><Mon>. <D>, <Y>\<close> names, as year, month and
  day, and the order of two such strings by date: the sense in which one cohort key is
  more recent than another. The components themselves never compare dates.
\<close>

definition digit_value :: "char \<Rightarrow> nat option" where
  "digit_value c =
     map_of [(CHR ''0'', 0), (CHR ''1'', 1), (CHR ''2'', 2), (CHR ''3'', 3), (CHR ''4'', 4),
             (CHR ''5'', 5), (CHR ''6'', 6), (CHR ''7'', 7), (CHR ''8'', 8), (CHR ''9'', 9)] c"

fun read_digits :: "nat \<Rightarrow> string \<Rightarrow> nat option" where
  "read_digits acc [] = Some acc"
| "read_digits acc (c # cs) =
     (case digit_value c of None \<Rightarrow> None | Some v \<Rightarrow> read_digits (10 * acc + v) cs)"

definition read_nat :: "string \<Rightarrow> nat option" where
  "read_nat s = (if s = [] then None else read_digits 0 s)"

definition week_date :: "string \<Rightarrow> (nat \<times> nat \<times> nat) option" where
  "week_date s =
     (case js_split CHR ''.'' s of
        [mon, rest] \<Rightarrow>
          (case js_split CHR '','' rest of
             [d, y] \<Rightarrow>
               (case map_of MONTH_NUMBERS mon of
                  None \<Rightarrow> None
                | Some m \<Rightarrow>
                    (case read_nat (trim d) of
                       None \<Rightarrow> None
                     | Some dd \<Rightarrow>
                         (case read_nat (trim y) of
                            None \<Rightarrow> None
                          | Some yy \<Rightarrow> Some (yy, m, dd))))
           | _ \<Rightarrow> None)
      | _ \<Rightarrow> None)"

definition more_recent :: "string \<Rightarrow> string \<Rightarrow> bool" where
  "more_recent a b =
     (case week_date a of
        None \<Rightarrow> False
      | Some (y1, m1, d1) \<Rightarrow>
          (case week_date b of
             None \<Rightarrow> False
           | Some (y2, m2, d2) \<Rightarrow>
               y2 < y1 \<or> (y2 = y1 \<and> m2 < m1) \<or> (y2 = y1 \<and> m2 = m1 \<and> d2 < d1)))"

section \<open>Properties of the library functions\<close>

subsection \<open>Grouping\<close>

lemma map_of_push_group:
  "map_of (push_group k v g) k' =
     (if k' = k then Some ((case map_of g k of None \<Rightarrow> [] | Some vs \<Rightarrow> vs) @ [v])
      else map_of g k')"
  by (induction g) auto

lemma keys_push_group:
  "map fst (push_group k v g) = (if k \<in> set (map fst g) then map fst g else map fst g @ [k])"
  by (induction g) (auto simp add: rev_image_eqI)

lemma map_of_foldl_push_group:
  "map_of (foldl (\<lambda>result v. push_group (f v) v result) acc xs) k =
     (if filter (\<lambda>x. f x = k) xs = [] then map_of acc k
      else Some ((case map_of acc k of None \<Rightarrow> [] | Some vs \<Rightarrow> vs) @ filter (\<lambda>x. f x = k) xs))"
proof (induction xs arbitrary: acc)
  case Nil
  show ?case by simp
next
  case (Cons x xs)
  show ?case
    by (simp add: Cons.IH map_of_push_group split: option.split)
qed

lemma keys_foldl_push_group:
  "\<exists>ks. map fst (foldl (\<lambda>result v. push_group (f v) v result) acc xs) = map fst acc @ ks"
proof (induction xs arbitrary: acc)
  case Nil
  show ?case by simp
next
  case (Cons x xs)
  obtain ks where
    "map fst (foldl (\<lambda>result v. push_group (f v) v result) (push_group (f x) x acc) xs)
       = map fst (push_group (f x) x acc) @ ks"
    using Cons.IH by blast
  then show ?case
    by (auto simp add: keys_push_group)
qed

lemma distinct_keys_foldl_push_group:
  "distinct (map fst acc) \<Longrightarrow>
     distinct (map fst (foldl (\<lambda>result v. push_group (f v) v result) acc xs))"
proof (induction xs arbitrary: acc)
  case Nil
  then show ?case by simp
next
  case (Cons x xs)
  have "distinct (map fst (push_group (f x) x acc))"
    using Cons.prems by (simp add: keys_push_group)
  then show ?case
    using Cons.IH by simp
qed

lemma set_keys_push_group: "fst ` set (push_group k v g) = insert k (fst ` set g)"
proof -
  have "set (map fst (push_group k v g)) = insert k (set (map fst g))"
    by (simp only: keys_push_group) auto
  then show ?thesis by simp
qed

lemma set_keys_foldl_push_group:
  "fst ` set (foldl (\<lambda>result v. push_group (f v) v result) acc xs)
     = fst ` set acc \<union> f ` set xs"
proof (induction xs arbitrary: acc)
  case Nil
  show ?case by simp
next
  case (Cons x xs)
  show ?case
    by (simp add: Cons.IH set_keys_push_group)
qed

lemma map_of_groupBy:
  "map_of (groupBy xs f) k =
     (if k \<in> f ` set xs then Some (filter (\<lambda>x. f x = k) xs) else None)"
  by (auto simp add: groupBy_def map_of_foldl_push_group filter_empty_conv)

lemma distinct_keys_groupBy: "distinct (Object_keys (groupBy xs f))"
  by (simp add: groupBy_def Object_keys_def distinct_keys_foldl_push_group)

lemma set_keys_groupBy: "set (Object_keys (groupBy xs f)) = f ` set xs"
  by (simp add: groupBy_def Object_keys_def set_keys_foldl_push_group)

lemma first_key_groupBy: "index0 (Object_keys (groupBy (x # xs) f)) = Str (f x)"
proof -
  obtain ks where
    "map fst (foldl (\<lambda>result v. push_group (f v) v result) [(f x, [x])] xs) = map fst [(f x, [x])] @ ks"
    using keys_foldl_push_group by blast
  then show ?thesis
    by (simp add: groupBy_def Object_keys_def index0_def)
qed

lemma groupBy_Nil: "groupBy [] f = []"
  by (simp add: groupBy_def)

subsection \<open>Sorting with a comparison function\<close>

lemma insert_sorted_insort_key:
  "\<forall>y \<in> set ys. comparefn x y = Some (k x - k y) \<Longrightarrow>
     insert_sorted comparefn x ys = insort_key k x ys"
  by (induction ys) (auto simp add: sort_order_def)

lemma Array_sort_sort_key:
  "\<forall>x \<in> set xs. \<forall>y \<in> set xs. comparefn x y = Some (k x - k y) \<Longrightarrow>
     Array_sort comparefn xs = sort_key k xs"
proof (induction xs)
  case Nil
  show ?case by (simp add: Array_sort_def)
next
  case (Cons x xs)
  have tail: "Array_sort comparefn xs = sort_key k xs"
    using Cons by simp
  have "insert_sorted comparefn x (sort_key k xs) = insort_key k x (sort_key k xs)"
    using Cons.prems by (intro insert_sorted_insort_key) simp
  then show ?case
    using tail by (simp add: Array_sort_def)
qed

text \<open>An entry of a grouped object holds its key's values in collection order.\<close>

lemma entry_of_groupBy:
  assumes "(k, vs) \<in> set (groupBy xs f)"
  shows "k \<in> f ` set xs" and "vs = filter (\<lambda>x. f x = k) xs"
proof -
  have "distinct (map fst (groupBy xs f))"
    using distinct_keys_groupBy [of xs f] by (simp add: Object_keys_def)
  then have "map_of (groupBy xs f) k = Some vs"
    using assms by (rule map_of_is_SomeI)
  then show "k \<in> f ` set xs" and "vs = filter (\<lambda>x. f x = k) xs"
    by (auto simp add: map_of_groupBy split: if_splits)
qed

section \<open>Properties of Course.js\<close>

subsection \<open>The enroll button\<close>

lemma disabled_iff:
  "disabled props \<longleftrightarrow>
     props_enrolled props \<or> \<not> props_enrollmentOpen props
       \<or> capacity (props_section props) - enrolledStudents (props_section props) = 0"
  by (simp add: disabled_def available_def)

lemma unbound_state_keeps_component:
  assumes "global ''state'' = None"
  shows "updateCourse_profiles global st profiles = st"
  using assms
  by (simp add: updateCourse_profiles_def profiles_continuation_def resolve_global_def)

text \<open>
  C1. The button's rule is the one stated (\<open>disabled_iff\<close>), but the already-enrolled
  flag is not computed: with a profile of the current course fetched (course 7, profiles
  \<open>[{course: 7}]\<close>) the continuation stops with \<open>ReferenceError\<close> at \<open>state\<close>, and
  \<open>enrolled\<close> keeps its initial \<open>false\<close> although the profile list includes the course.
\<close>

theorem enrolled_flag_not_set:
  "profiles_continuation Map.empty
       (initial_state \<lparr>course_id = 7, course_name = ''CS61A'',
          enrollmentStart = Some 100, enrollmentEnd = Some 200\<rparr>)
       [\<lparr>profile_course = 7\<rparr>]
     = Inl (ReferenceError ''state'')
   \<and> enrolled (updateCourse_profiles Map.empty
       (initial_state \<lparr>course_id = 7, course_name = ''CS61A'',
          enrollmentStart = Some 100, enrollmentEnd = Some 200\<rparr>)
       [\<lparr>profile_course = 7\<rparr>]) = False
   \<and> array_includes (map profile_course [\<lparr>profile_course = 7\<rparr>]) 7"
  by (simp add: profiles_continuation_def updateCourse_profiles_def resolve_global_def
      initial_state_def array_includes_def)

subsection \<open>The enrollment window\<close>

text \<open>
  C2. For valid timestamps the window test is the strict inequality
  \<open>windowStart < now < windowEnd\<close>: closed at either boundary, open strictly between,
  closed outside; an invalid date on any side closes the window; and \<open>updateCourse\<close>
  stores exactly this test of the course's window.
\<close>

theorem isOpen_strict:
  "(isOpen (Some now) (Some ws) (Some we) \<longleftrightarrow> ws < now \<and> now < we)
   \<and> \<not> isOpen (Some ws) (Some ws) (Some we)
   \<and> \<not> isOpen (Some we) (Some ws) (Some we)
   \<and> (now < ws \<or> we < now \<longrightarrow> \<not> isOpen (Some now) (Some ws) (Some we))
   \<and> (isOpen t t1 t2
         \<longleftrightarrow> (\<exists>n s e. t = Some n \<and> t1 = Some s \<and> t2 = Some e \<and> s < n \<and> n < e))
   \<and> (enrollmentOpen (updateCourse_window t st)
         \<longleftrightarrow> isOpen t (enrollmentStart (course st)) (enrollmentEnd (course st)))"
  by (auto simp add: isOpen_def js_gt_def js_lt_def updateCourse_window_def split: option.splits)

theorem isOpen_strict_witness:
  "isOpen (Some 43200000) (Some 32400000) (Some 61200000)
   \<and> \<not> isOpen (Some 28800000) (Some 32400000) (Some 61200000)
   \<and> \<not> isOpen (Some 61200000) (Some 32400000) (Some 61200000)
   \<and> \<not> isOpen (Some 32400000) (Some 32400000) (Some 61200000)"
  using isOpen_strict [of 43200000 32400000 61200000]
    isOpen_strict [of 28800000 32400000 61200000]
  by simp

subsection \<open>Availability\<close>

text \<open>
  C9. The availability shown is \<open>capacity - enrolledStudents\<close>, which is not negative
  when \<open>enrolledStudents \<le> capacity\<close>; the unit word is \<open>spot\<close> exactly when one place
  is available and \<open>spots\<close> otherwise.
\<close>

theorem available_pluralized:
  "available props = capacity (props_section props) - enrolledStudents (props_section props)
   \<and> (enrolledStudents (props_section props) \<le> capacity (props_section props)
        \<longrightarrow> 0 \<le> available props)
   \<and> (pluralized_spot props = ''spot'' \<longleftrightarrow> available props = 1)
   \<and> (pluralized_spot props = ''spots'' \<longleftrightarrow> available props \<noteq> 1)"
  by (simp add: available_def pluralized_spot_def)

theorem available_pluralized_witness:
  "available \<lparr>props_enrolled = False, props_enrollmentOpen = True,
      props_section = \<lparr>section_id = 1,
        defaultSpacetime = \<lparr>spacetime_dayOfWeek = ''Monday'',
          spacetime_startTime = ''10:00:00'', spacetime_location = ''Soda 310''\<rparr>,
        capacity = 5, enrolledStudents = 5\<rparr>\<rparr> = 0
   \<and> pluralized_spot \<lparr>props_enrolled = False, props_enrollmentOpen = True,
      props_section = \<lparr>section_id = 1,
        defaultSpacetime = \<lparr>spacetime_dayOfWeek = ''Monday'',
          spacetime_startTime = ''10:00:00'', spacetime_location = ''Soda 310''\<rparr>,
        capacity = 5, enrolledStudents = 5\<rparr>\<rparr> = ''spots''"
  using available_pluralized [of "\<lparr>props_enrolled = False, props_enrollmentOpen = True,
      props_section = \<lparr>section_id = 1,
        defaultSpacetime = \<lparr>spacetime_dayOfWeek = ''Monday'',
          spacetime_startTime = ''10:00:00'', spacetime_location = ''Soda 310''\<rparr>,
        capacity = 5, enrolledStudents = 5\<rparr>\<rparr>"]
  by simp

subsection \<open>Rejected enroll requests\<close>

text \<open>
  C3 as stated fails in its logging part: for an unrecognized code the callback logs the
  generic message and \<open>body.message\<close>, not the body. A body without a \<open>message\<close>
  property leaves only \<open>undefined\<close> in the log, and two different bodies give the same
  outcome, log included.
\<close>

theorem failure_body_not_logged:
  "console_log (handleClick_response
       \<lparr>section_id = 1, defaultSpacetime = \<lparr>spacetime_dayOfWeek = ''Monday'',
          spacetime_startTime = ''10:00:00'', spacetime_location = ''Soda 310''\<rparr>,
        capacity = 5, enrolledStudents = 5\<rparr> ''10:00 AM'' False
       [(''shortCode'', ''teapot''), (''detail'', ''disk full'')])
     = [Str ''An unknown error has occurred.'', Undefined]
   \<and> handleClick_response
       \<lparr>section_id = 1, defaultSpacetime = \<lparr>spacetime_dayOfWeek = ''Monday'',
          spacetime_startTime = ''10:00:00'', spacetime_location = ''Soda 310''\<rparr>,
        capacity = 5, enrolledStudents = 5\<rparr> ''10:00 AM'' False
       [(''shortCode'', ''teapot''), (''message'', ''boom'')]
     = handleClick_response
       \<lparr>section_id = 1, defaultSpacetime = \<lparr>spacetime_dayOfWeek = ''Monday'',
          spacetime_startTime = ''10:00:00'', spacetime_location = ''Soda 310''\<rparr>,
        capacity = 5, enrolledStudents = 5\<rparr> ''10:00 AM'' False
       [(''message'', ''boom''), (''shortCode'', ''kettle''), (''detail'', ''disk full'')]
   \<and> [(''shortCode'', ''teapot''), (''message'', ''boom'')]
     \<noteq> [(''message'', ''boom''), (''shortCode'', ''kettle''), (''detail'', ''disk full'')]"
  by (simp add: handleClick_response_def errorMessage_switch_def get_prop_def
      unknown_error_message_def)

text \<open>
  C3, amended. For every rejected response whose body is a JSON object the alert shown
  is a function of \<open>body.shortCode\<close> alone: the one-section-per-course message for
  \<open>already_enrolled\<close>, one and the same not-open message for \<open>course_closed\<close> and
  \<open>section_full\<close>, the generic message for anything else (a missing code included). In
  the last case, and only then, the generic message and \<open>body.message\<close> are written to
  the console. The alert navigates nowhere, and the course is refreshed.
\<close>

theorem rejected_enroll_message:
  "alert_message (handleClick_response s t False body) =
     (if get_prop body ''shortCode'' = Str ''already_enrolled'' then already_enrolled_message
      else if get_prop body ''shortCode'' = Str ''course_closed''
              \<or> get_prop body ''shortCode'' = Str ''section_full'' then not_open_message
      else unknown_error_message)
   \<and> console_log (handleClick_response s t False body) =
     (if get_prop body ''shortCode''
           \<in> {Str ''already_enrolled'', Str ''course_closed'', Str ''section_full''}
      then [] else [Str unknown_error_message, get_prop body ''message''])
   \<and> alert_onClose (handleClick_response s t False body) = None
   \<and> update_called (handleClick_response s t False body)
   \<and> (get_prop body ''shortCode'' = get_prop body' ''shortCode'' \<longrightarrow>
        alert_message (handleClick_response s t False body)
          = alert_message (handleClick_response s' t' False body'))"
  by (simp add: handleClick_response_def errorMessage_switch_def)

theorem rejected_enroll_message_witness:
  "alert_message (handleClick_response
       \<lparr>section_id = 1, defaultSpacetime = \<lparr>spacetime_dayOfWeek = ''Monday'',
          spacetime_startTime = ''10:00:00'', spacetime_location = ''Soda 310''\<rparr>,
        capacity = 5, enrolledStudents = 5\<rparr> ''10:00 AM'' False
       [(''shortCode'', ''section_full''), (''message'', ''Section is full'')])
     = ''This course is not currently open for enrollment.''
   \<and> console_log (handleClick_response
       \<lparr>section_id = 1, defaultSpacetime = \<lparr>spacetime_dayOfWeek = ''Monday'',
          spacetime_startTime = ''10:00:00'', spacetime_location = ''Soda 310''\<rparr>,
        capacity = 5, enrolledStudents = 5\<rparr> ''10:00 AM'' False
       [(''shortCode'', ''section_full''), (''message'', ''Section is full'')]) = []"
  using rejected_enroll_message [of
      "\<lparr>section_id = 1, defaultSpacetime = \<lparr>spacetime_dayOfWeek = ''Monday'',
          spacetime_startTime = ''10:00:00'', spacetime_location = ''Soda 310''\<rparr>,
        capacity = 5, enrolledStudents = 5\<rparr>" "''10:00 AM''"
      "[(''shortCode'', ''section_full''), (''message'', ''Section is full'')]"]
  by (simp add: get_prop_def not_open_message_def)

section \<open>Properties of MentorSection.js\<close>

subsection \<open>The weekly cohorts\<close>

text \<open>
  C4. The mapping the component stores is \<open>groupBy\<close> of the reversed flat list of all
  students' attendances. Its keys are the week starts that occur, each once; the cohort
  of a week holds that week's records in the reverse of their order in the flat list; an
  empty list gives the empty object.
\<close>

theorem group_attendances_reversed:
  "group_attendances flat = groupBy (rev flat) weekStart
   \<and> map_of (group_attendances flat) w =
       (if w \<in> weekStart ` set flat then Some (rev (filter (\<lambda>r. weekStart r = w) flat))
        else None)
   \<and> distinct (Object_keys (group_attendances flat))
   \<and> set (Object_keys (group_attendances flat)) = weekStart ` set flat
   \<and> group_attendances [] = []
   \<and> state_attendances (MentorSection_loaded data) = group_attendances (flat_attendances data)"
  by (simp add: group_attendances_def map_of_groupBy distinct_keys_groupBy set_keys_groupBy
      groupBy_Nil rev_filter MentorSection_loaded_def)

theorem group_attendances_reversed_witness:
  "map_of (group_attendances
      [\<lparr>row_id = 1, weekStart = ''Jan. 6, 2020'', presence = ''PR'',
         row_student = \<lparr>ref_name = ''Ann'', ref_id = 10\<rparr>\<rparr>,
       \<lparr>row_id = 2, weekStart = ''Jan. 13, 2020'', presence = ''UN'',
         row_student = \<lparr>ref_name = ''Ann'', ref_id = 10\<rparr>\<rparr>,
       \<lparr>row_id = 3, weekStart = ''Jan. 6, 2020'', presence = ''EX'',
         row_student = \<lparr>ref_name = ''Bob'', ref_id = 11\<rparr>\<rparr>]) ''Jan. 6, 2020''
     = Some [\<lparr>row_id = 3, weekStart = ''Jan. 6, 2020'', presence = ''EX'',
               row_student = \<lparr>ref_name = ''Bob'', ref_id = 11\<rparr>\<rparr>,
             \<lparr>row_id = 1, weekStart = ''Jan. 6, 2020'', presence = ''PR'',
               row_student = \<lparr>ref_name = ''Ann'', ref_id = 10\<rparr>\<rparr>]"
  using group_attendances_reversed [THEN conjunct2, THEN conjunct1, of
      "[\<lparr>row_id = 1, weekStart = ''Jan. 6, 2020'', presence = ''PR'',
         row_student = \<lparr>ref_name = ''Ann'', ref_id = 10\<rparr>\<rparr>,
       \<lparr>row_id = 2, weekStart = ''Jan. 13, 2020'', presence = ''UN'',
         row_student = \<lparr>ref_name = ''Ann'', ref_id = 10\<rparr>\<rparr>,
       \<lparr>row_id = 3, weekStart = ''Jan. 6, 2020'', presence = ''EX'',
         row_student = \<lparr>ref_name = ''Bob'', ref_id = 11\<rparr>\<rparr>]" "''Jan. 6, 2020''"]
  by simp

subsection \<open>The selected week\<close>

text \<open>
  A week selected earlier that the loaded grouping no longer holds is kept as the
  selection, and rendering its rows throws: \<open>attendances[selectedWeek]\<close> is \<open>undefined\<close>.
\<close>

lemma stale_selection_throws:
  "render_attendance labels (Str ''Jan. 6, 2020'') True [] = Inl (TypeError ''map'')"
  by (simp add: render_attendance_def selectedWeek_def js_or_def truthy_def Object_keys_def
      render_rows_def)

lemma flat_attendances_last:
  "flat_attendances (data @ [s\<lparr>student_attendances := as @ [a]\<rparr>])
     = (flat_attendances data
        @ map (\<lambda>a. \<lparr>row_id = attendance_id a, weekStart = attendance_weekStart a,
                       presence = attendance_presence a,
                       row_student = \<lparr>ref_name = student_name s, ref_id = student_id s\<rparr>\<rparr>) as)
       @ [\<lparr>row_id = attendance_id a, weekStart = attendance_weekStart a,
            presence = attendance_presence a,
            row_student = \<lparr>ref_name = student_name s, ref_id = student_id s\<rparr>\<rparr>]"
  by (simp add: flat_attendances_def flatMap_def)

lemma first_key_of_reversed:
  "selectedWeek Null True (group_attendances (flat @ [r])) = Str (weekStart r)"
  by (simp add: selectedWeek_def js_or_def js_and_def truthy_def group_attendances_def
      first_key_groupBy)

text \<open>
  C8 as stated fails. The default is the first key of the grouped object, and that key
  need not be the most recent week: with Ann's attendances for January 6, 13 and 20
  followed by Bob's for January 6 and 13, the reversed flat list starts with Bob's
  January 13, the keys are January 13, 6, 20, and the default is January 13 although
  January 20 is a cohort. And with an empty grouping the value is \<open>undefined\<close>, not
  \<open>null\<close>.
\<close>

theorem default_not_most_recent:
  "selectedWeek Null True (state_attendances (MentorSection_loaded
      [\<lparr>student_name = ''Ann'', student_email = ''ann@example.org'', student_id = 10,
        student_attendances =
          [\<lparr>attendance_id = 1, attendance_weekStart = ''Jan. 6, 2020'', attendance_presence = ''PR''\<rparr>,
           \<lparr>attendance_id = 2, attendance_weekStart = ''Jan. 13, 2020'', attendance_presence = ''PR''\<rparr>,
           \<lparr>attendance_id = 3, attendance_weekStart = ''Jan. 20, 2020'', attendance_presence = ''PR''\<rparr>]\<rparr>,
       \<lparr>student_name = ''Bob'', student_email = ''bob@example.org'', student_id = 11,
        student_attendances =
          [\<lparr>attendance_id = 4, attendance_weekStart = ''Jan. 6, 2020'', attendance_presence = ''PR''\<rparr>,
           \<lparr>attendance_id = 5, attendance_weekStart = ''Jan. 13, 2020'', attendance_presence = ''PR''\<rparr>]\<rparr>]))
     = Str ''Jan. 13, 2020''
   \<and> Object_keys (state_attendances (MentorSection_loaded
      [\<lparr>student_name = ''Ann'', student_email = ''ann@example.org'', student_id = 10,
        student_attendances =
          [\<lparr>attendance_id = 1, attendance_weekStart = ''Jan. 6, 2020'', attendance_presence = ''PR''\<rparr>,
           \<lparr>attendance_id = 2, attendance_weekStart = ''Jan. 13, 2020'', attendance_presence = ''PR''\<rparr>,
           \<lparr>attendance_id = 3, attendance_weekStart = ''Jan. 20, 2020'', attendance_presence = ''PR''\<rparr>]\<rparr>,
       \<lparr>student_name = ''Bob'', student_email = ''bob@example.org'', student_id = 11,
        student_attendances =
          [\<lparr>attendance_id = 4, attendance_weekStart = ''Jan. 6, 2020'', attendance_presence = ''PR''\<rparr>,
           \<lparr>attendance_id = 5, attendance_weekStart = ''Jan. 13, 2020'', attendance_presence = ''PR''\<rparr>]\<rparr>]))
     = [''Jan. 13, 2020'', ''Jan. 6, 2020'', ''Jan. 20, 2020'']
   \<and> more_recent ''Jan. 20, 2020'' ''Jan. 13, 2020''
   \<and> selectedWeek Null True ([] :: (string \<times> attendance_row list) list) = Undefined
   \<and> Undefined \<noteq> Null"
  by (simp add: selectedWeek_def js_or_def js_and_def truthy_def index0_def Object_keys_def
      MentorSection_loaded_def group_attendances_def flat_attendances_def flatMap_def
      groupBy_def more_recent_def week_date_def MONTH_NUMBERS_def read_nat_def digit_value_def
      trim_def is_white_space_def)

text \<open>
  C8, amended. With nothing selected yet (\<open>selectedWeek: null\<close>) and the data loaded, the
  selected week is the first key of the grouped object; for the grouping built by
  \<open>group_attendances\<close> that is the week of the last record of the flat list, that is, of
  the last attendance of the last student, whether or not it is the most recent week.
  With nothing selected and an empty grouping no key is selected (the value is
  \<open>undefined\<close>, or \<open>false\<close> while loading, both falsy), and \<open>render\<close> returns the table
  without tabs and rows, or the loading line, not an exception.
\<close>

theorem default_selected_week:
  "selectedWeek Null True atts = index0 (Object_keys atts)
   \<and> selectedWeek Null True ((k, rs) # others) = Str k
   \<and> selectedWeek Null True (group_attendances (flat @ [r])) = Str (weekStart r)
   \<and> selectedWeek Null True ([] :: (string \<times> attendance_row list) list) = Undefined
   \<and> selectedWeek Null False atts = Bool False
   \<and> \<not> truthy (selectedWeek Null loaded ([] :: (string \<times> attendance_row list) list))
   \<and> render_attendance labels Null True [] = Inr (Attendance_table [] [])
   \<and> render_attendance labels Null False atts' = Inr Loading_attendances
   \<and> selectedWeek Null True
        (state_attendances (MentorSection_loaded (data @ [s\<lparr>student_attendances := as @ [a]\<rparr>])))
       = Str (attendance_weekStart a)"
proof -
  have "selectedWeek Null True
        (state_attendances (MentorSection_loaded (data @ [s\<lparr>student_attendances := as @ [a]\<rparr>])))
       = Str (attendance_weekStart a)"
    unfolding MentorSection_loaded_def flat_attendances_last
    by (simp only: mentor_state.simps first_key_of_reversed attendance_row.simps)
  then show ?thesis
    by (simp add: selectedWeek_def js_or_def js_and_def truthy_def index0_def Object_keys_def
        render_attendance_def render_rows_def group_attendances_def
        first_key_groupBy [unfolded Object_keys_def index0_def])
qed

theorem default_selected_week_witness:
  "selectedWeek Null True (group_attendances
      ([\<lparr>row_id = 1, weekStart = ''Jan. 6, 2020'', presence = ''PR'',
          row_student = \<lparr>ref_name = ''Ann'', ref_id = 10\<rparr>\<rparr>,
        \<lparr>row_id = 2, weekStart = ''Jan. 6, 2020'', presence = ''UN'',
          row_student = \<lparr>ref_name = ''Bob'', ref_id = 11\<rparr>\<rparr>,
        \<lparr>row_id = 3, weekStart = ''Jan. 6, 2020'', presence = ''EX'',
          row_student = \<lparr>ref_name = ''Cy'', ref_id = 12\<rparr>\<rparr>,
        \<lparr>row_id = 4, weekStart = ''Jan. 13, 2020'', presence = ''PR'',
          row_student = \<lparr>ref_name = ''Ann'', ref_id = 10\<rparr>\<rparr>]
       @ [\<lparr>row_id = 5, weekStart = ''Jan. 13, 2020'', presence = ''PR'',
          row_student = \<lparr>ref_name = ''Bob'', ref_id = 11\<rparr>\<rparr>]))
     = Str ''Jan. 13, 2020''"
  using default_selected_week [THEN conjunct2, THEN conjunct2, THEN conjunct1, of
      "[\<lparr>row_id = 1, weekStart = ''Jan. 6, 2020'', presence = ''PR'',
          row_student = \<lparr>ref_name = ''Ann'', ref_id = 10\<rparr>\<rparr>,
        \<lparr>row_id = 2, weekStart = ''Jan. 6, 2020'', presence = ''UN'',
          row_student = \<lparr>ref_name = ''Bob'', ref_id = 11\<rparr>\<rparr>,
        \<lparr>row_id = 3, weekStart = ''Jan. 6, 2020'', presence = ''EX'',
          row_student = \<lparr>ref_name = ''Cy'', ref_id = 12\<rparr>\<rparr>,
        \<lparr>row_id = 4, weekStart = ''Jan. 13, 2020'', presence = ''PR'',
          row_student = \<lparr>ref_name = ''Ann'', ref_id = 10\<rparr>\<rparr>]"
      "\<lparr>row_id = 5, weekStart = ''Jan. 13, 2020'', presence = ''PR'',
          row_student = \<lparr>ref_name = ''Bob'', ref_id = 11\<rparr>\<rparr>"]
  by simp

subsection \<open>parseDate\<close>

lemma js_split_not_Nil: "js_split c s \<noteq> []"
  by (induction s) (auto split: list.split)

lemma js_split_append: "c \<notin> set a \<Longrightarrow> js_split c (a @ c # b) = a # js_split c b"
  by (induction a) auto

lemma js_split_first: "\<exists>ws. js_split c s = takeWhile (\<lambda>x. x \<noteq> c) s # ws"
  by (induction s) (auto split: list.split)

lemma takeWhile_neq_append:
  "c \<notin> set a \<Longrightarrow> takeWhile (\<lambda>x. x \<noteq> c) (a @ b) = a @ takeWhile (\<lambda>x. x \<noteq> c) b"
  by (induction a) auto

lemma trim_leading_space: "trim (CHR '' '' # d) = trim d"
  by (simp add: trim_def is_white_space_def)


lemma month_in_table:
  assumes "(mon, m) \<in> set MONTH_NUMBERS"
  shows "map_of MONTH_NUMBERS mon = Some m" and "CHR ''.'' \<notin> set mon"
proof -
  have "distinct (map fst MONTH_NUMBERS)"
    by (simp add: MONTH_NUMBERS_def)
  then show "map_of MONTH_NUMBERS mon = Some m"
    using assms by (rule map_of_is_SomeI)
  have "\<forall>p \<in> set MONTH_NUMBERS. CHR ''.'' \<notin> set (fst p)"
    by (simp add: MONTH_NUMBERS_def)
  then show "CHR ''.'' \<notin> set mon"
    using assms by fastforce
qed

text \<open>
  C10. For a date string \<open><Mon>. <D>, <Y>\<close> whose month is one of the twelve
  abbreviations of the table and whose day token holds neither separator, \<open>parseDate\<close>
  returns the month's number (the table numbers Jan to Dec from 1 to 12), a slash and the
  day token without surrounding white space; the year does not matter.
\<close>

theorem parseDate_month_day:
  assumes "(mon, m) \<in> set MONTH_NUMBERS" and "CHR ''.'' \<notin> set d" and "CHR '','' \<notin> set d"
  shows "parseDate (mon @ ''. '' @ d @ '', '' @ y) = Inr (Number_toString (int m) @ ''/'' @ trim d)
    \<and> MONTH_NUMBERS =
      zip [''Jan'', ''Feb'', ''Mar'', ''Apr'', ''May'', ''Jun'',
           ''Jul'', ''Aug'', ''Sep'', ''Oct'', ''Nov'', ''Dec''] [1 ..< 13]"
proof -
  define rest where "rest = (CHR '' '' # d) @ (CHR '','' # CHR '' '' # y)"
  define dayAndYear where "dayAndYear = takeWhile (\<lambda>x. x \<noteq> CHR ''.'') rest"
  define tail where "tail = takeWhile (\<lambda>x. x \<noteq> CHR ''.'') (CHR '' '' # y)"
  have shape: "mon @ ''. '' @ d @ '', '' @ y = mon @ CHR ''.'' # rest"
    by (simp add: rest_def)
  have "js_split CHR ''.'' (mon @ CHR ''.'' # rest) = mon # js_split CHR ''.'' rest"
    using month_in_table(2) [OF assms(1)] by (rule js_split_append)
  moreover obtain ws where "js_split CHR ''.'' rest = dayAndYear # ws"
    unfolding dayAndYear_def using js_split_first by blast
  ultimately have pieces: "js_split CHR ''.'' (mon @ CHR ''.'' # rest) = mon # dayAndYear # ws"
    by simp
  have "CHR ''.'' \<notin> set (CHR '' '' # d)"
    using assms(2) by simp
  then have "dayAndYear = (CHR '' '' # d) @ takeWhile (\<lambda>x. x \<noteq> CHR ''.'') (CHR '','' # CHR '' '' # y)"
    unfolding dayAndYear_def rest_def by (rule takeWhile_neq_append)
  then have cut: "dayAndYear = (CHR '' '' # d) @ CHR '','' # tail"
    by (simp add: tail_def)
  have "CHR '','' \<notin> set (CHR '' '' # d)"
    using assms(3) by simp
  then have day: "js_split CHR '','' dayAndYear = (CHR '' '' # d) # js_split CHR '','' tail"
    unfolding cut by (rule js_split_append)
  have "parseDate (mon @ CHR ''.'' # rest)
      = Inr (Number_toString (int m) @ ''/'' @ trim (CHR '' '' # d))"
    unfolding parseDate_def pieces
    by (simp add: day month_in_table(1) [OF assms(1)])
  then have "parseDate (mon @ ''. '' @ d @ '', '' @ y)
      = Inr (Number_toString (int m) @ ''/'' @ trim d)"
    by (simp only: shape trim_leading_space)
  moreover have "MONTH_NUMBERS =
      zip [''Jan'', ''Feb'', ''Mar'', ''Apr'', ''May'', ''Jun'',
           ''Jul'', ''Aug'', ''Sep'', ''Oct'', ''Nov'', ''Dec''] [1 ..< 13]"
    by (simp add: MONTH_NUMBERS_def upt_rec)
  ultimately show ?thesis
    by (rule conjI)
qed

theorem parseDate_month_day_witness:
  "(''Jan'', 1) \<in> set MONTH_NUMBERS \<and> parseDate ''Jan. 6, 2020'' = Inr ''1/6''
   \<and> (''Dec'', 12) \<in> set MONTH_NUMBERS \<and> parseDate ''Dec.  16 , 2019'' = Inr ''12/16''"
  using parseDate_month_day [of "''Jan''" 1 "''6''" "''2020''", THEN conjunct1]
    parseDate_month_day [of "''Dec''" 12 "'' 16 ''" "''2019''", THEN conjunct1]
  by (simp add: MONTH_NUMBERS_def Number_toString_def digits.simps digit_char_def trim_def
      is_white_space_def)

section \<open>Properties of Course.js: the section listing\<close>

lemma dayComparator_valid:
  assumes "fst item1 \<in> set (map fst dayOfWeek)" and "fst item2 \<in> set (map fst dayOfWeek)"
  shows "dayComparator item1 item2 = Some (day_number (fst item1) - day_number (fst item2))"
proof -
  obtain n1 where "map_of dayOfWeek (fst item1) = Some n1"
    using assms(1) by (metis map_of_eq_None_iff not_Some_eq set_map)
  moreover obtain n2 where "map_of dayOfWeek (fst item2) = Some n2"
    using assms(2) by (metis map_of_eq_None_iff not_Some_eq set_map)
  ultimately show ?thesis
    by (simp add: dayComparator_def js_sub_def day_number_def)
qed

lemma week_numbers: "map day_number (map fst dayOfWeek) = [0, 1, 2, 3, 4, 5, 6]"
  by (simp add: dayOfWeek_def day_number_def)

lemma inj_on_day_number: "inj_on day_number (set (map fst dayOfWeek))"
proof -
  have "distinct (map day_number (map fst dayOfWeek))"
    by (simp only: week_numbers) simp
  then show ?thesis
    by (simp only: distinct_map)
qed


lemma week_order_unique:
  assumes keys: "distinct ks" and valid: "set ks \<subseteq> set (map fst dayOfWeek)"
    and ordered: "sorted (map day_number ks)"
  shows "ks = filter (\<lambda>d. d \<in> set ks) (map fst dayOfWeek)"
proof -
  let ?week = "map fst dayOfWeek"
  let ?R = "filter (\<lambda>d. d \<in> set ks) ?week"
  have inj_ks: "inj_on day_number (set ks)"
    using inj_on_day_number valid by (rule inj_on_subset)
  have "sorted (map day_number ?week)" and "distinct (map day_number ?week)"
    by (simp_all only: week_numbers) simp_all
  then have "sorted (map day_number ?R)" and "distinct (map day_number ?R)"
    by (simp_all add: sorted_filter distinct_map_filter)
  moreover have "distinct (map day_number ks)"
    using keys inj_ks by (simp add: distinct_map)
  moreover have "set (map day_number ks) = set (map day_number ?R)"
    using valid by auto
  ultimately have "map day_number ks = map day_number ?R"
    using ordered by (intro sorted_distinct_set_unique)
  moreover have "inj_on day_number (set ks \<union> set ?R)"
    using inj_on_day_number by (rule inj_on_subset) (use valid in auto)
  ultimately show ?thesis
    by (rule map_inj_on)
qed

lemma sorted_entries_keys:
  assumes "distinct (map fst g)" and "set (map fst g) \<subseteq> set (map fst dayOfWeek)"
  shows "map fst (Array_sort dayComparator g)
      = filter (\<lambda>d. d \<in> set (map fst g)) (map fst dayOfWeek)"
    and "set (Array_sort dayComparator g) = set g"
proof -
  have known: "fst x \<in> set (map fst dayOfWeek)" if "x \<in> set g" for x
    using assms(2) that by fastforce
  have "dayComparator x y = Some ((day_number \<circ> fst) x - (day_number \<circ> fst) y)"
    if "x \<in> set g" and "y \<in> set g" for x y
    using dayComparator_valid [OF known [OF that(1)] known [OF that(2)]] by simp
  then have "\<forall>x \<in> set g. \<forall>y \<in> set g.
      dayComparator x y = Some ((day_number \<circ> fst) x - (day_number \<circ> fst) y)"
    by blast
  then have sorted_by: "Array_sort dayComparator g = sort_key (day_number \<circ> fst) g"
    by (rule Array_sort_sort_key)
  show "set (Array_sort dayComparator g) = set g"
    by (simp add: sorted_by)
  let ?ks = "map fst (sort_key (day_number \<circ> fst) g)"
  have same: "set ?ks = set (map fst g)"
    by simp
  have "distinct ?ks"
    using assms(1) by (simp add: distinct_map)
  moreover have "set ?ks \<subseteq> set (map fst dayOfWeek)"
    using assms(2) same by simp
  moreover have "sorted (map day_number ?ks)"
    using sorted_sort_key [of "day_number \<circ> fst" g] by (simp add: comp_def)
  ultimately have "?ks = filter (\<lambda>d. d \<in> set ?ks) (map fst dayOfWeek)"
    by (rule week_order_unique)
  then show "map fst (Array_sort dayComparator g)
      = filter (\<lambda>d. d \<in> set (map fst g)) (map fst dayOfWeek)"
    by (simp only: sorted_by same)
qed


lemma week_names:
  "map fst dayOfWeek
     = [''Monday'', ''Tuesday'', ''Wednesday'', ''Thursday'', ''Friday'', ''Saturday'', ''Sunday'']"
  by (simp add: dayOfWeek_def)

lemma sections_grouped:
  "sections (updateCourse_sections st fetched) = groupBy fetched section_day"
proof -
  have "section_day = (\<lambda>s. spacetime_dayOfWeek (defaultSpacetime s))"
    by (rule ext) (simp add: section_day_def)
  then show ?thesis
    by (simp add: updateCourse_sections_def)
qed

lemma Day_sections_sort_key:
  assumes "\<forall>s \<in> set ss. section_time mp s \<noteq> None"
  shows "Day_sections mp ss = sort_key (start_number mp) ss"
proof -
  have "js_sub (section_time mp s1) (section_time mp s2)
      = Some (start_number mp s1 - start_number mp s2)"
    if "s1 \<in> set ss" and "s2 \<in> set ss" for s1 s2
    using assms that by (auto simp add: js_sub_def start_number_def split: option.splits)
  then have "\<forall>s1 \<in> set ss. \<forall>s2 \<in> set ss.
      (let time1 = mp (spacetime_startTime (defaultSpacetime s1)) API_TIME_FORMAT;
           time2 = mp (spacetime_startTime (defaultSpacetime s2)) API_TIME_FORMAT
       in js_sub time1 time2) = Some (start_number mp s1 - start_number mp s2)"
    by (simp add: section_time_def Let_def)
  then show ?thesis
    unfolding Day_sections_def by (rule Array_sort_sort_key)
qed

text \<open>
  C5. For sections whose weekday is one of the seven names of \<open>dayOfWeek\<close> and whose
  start time parses, the days listed (the tabs and the day panels alike) are the
  weekdays that have a section, in the order Monday to Sunday whatever the order of the
  input; under each day stand exactly that day's sections, ascending by start time, and
  sections with the same start time keep their input order.
\<close>

theorem days_in_week_order:
  assumes days: "\<forall>s \<in> set fetched. section_day s \<in> set (map fst dayOfWeek)"
    and times: "\<forall>s \<in> set fetched. section_time mp s \<noteq> None"
  shows "map fst (render_days mp (updateCourse_sections st fetched))
      = filter (\<lambda>d. d \<in> section_day ` set fetched)
          [''Monday'', ''Tuesday'', ''Wednesday'', ''Thursday'', ''Friday'', ''Saturday'', ''Sunday'']
    \<and> render_dayHeaders (updateCourse_sections st fetched)
      = map fst (render_days mp (updateCourse_sections st fetched))
    \<and> (\<forall>item \<in> set (render_days mp (updateCourse_sections st fetched)).
          snd item = sort_key (start_number mp) (filter (\<lambda>s. section_day s = fst item) fetched)
        \<and> sorted (map (start_number mp) (snd item))
        \<and> (\<forall>t. filter (\<lambda>s. start_number mp s = t) (snd item)
               = filter (\<lambda>s. section_day s = fst item \<and> start_number mp s = t) fetched))"
proof -
  let ?g = "groupBy fetched section_day"
  have keys: "distinct (map fst ?g)" "set (map fst ?g) = section_day ` set fetched"
    using distinct_keys_groupBy [of fetched section_day] set_keys_groupBy [of fetched section_day]
    by (simp_all add: Object_keys_def)
  have "set (map fst ?g) \<subseteq> set (map fst dayOfWeek)"
    using days by (auto simp only: keys(2))
  with keys(1) have order: "map fst (Array_sort dayComparator ?g)
      = filter (\<lambda>d. d \<in> set (map fst ?g)) (map fst dayOfWeek)"
    and same: "set (Array_sort dayComparator ?g) = set ?g"
    by (rule sorted_entries_keys)+
  have headers: "map fst (render_days mp (updateCourse_sections st fetched))
      = map fst (Array_sort dayComparator ?g)"
    by (simp add: render_days_def sections_grouped Object_entries_def comp_def)
  have first: "map fst (render_days mp (updateCourse_sections st fetched))
      = filter (\<lambda>d. d \<in> section_day ` set fetched)
          [''Monday'', ''Tuesday'', ''Wednesday'', ''Thursday'', ''Friday'', ''Saturday'', ''Sunday'']"
    by (simp only: headers order keys(2) week_names)
  have second: "render_dayHeaders (updateCourse_sections st fetched)
      = map fst (render_days mp (updateCourse_sections st fetched))"
    by (simp add: headers render_dayHeaders_def sections_grouped Object_entries_def)
  have third: "snd item = sort_key (start_number mp) (filter (\<lambda>s. section_day s = fst item) fetched)
        \<and> sorted (map (start_number mp) (snd item))
        \<and> (\<forall>t. filter (\<lambda>s. start_number mp s = t) (snd item)
               = filter (\<lambda>s. section_day s = fst item \<and> start_number mp s = t) fetched)"
    if "item \<in> set (render_days mp (updateCourse_sections st fetched))" for item
  proof -
    have "item \<in> (\<lambda>e. (fst e, Day_sections mp (snd e))) ` set (Array_sort dayComparator ?g)"
      using that by (simp add: render_days_def sections_grouped Object_entries_def)
    then have "item \<in> (\<lambda>e. (fst e, Day_sections mp (snd e))) ` set ?g"
      by (simp only: same)
    then obtain entry where entry: "entry \<in> set ?g"
      and item: "item = (fst entry, Day_sections mp (snd entry))"
      by blast
    have "(fst entry, snd entry) \<in> set ?g"
      using entry by simp
    then have group: "snd entry = filter (\<lambda>s. section_day s = fst entry) fetched"
      by (rule entry_of_groupBy(2))
    have "\<forall>s \<in> set (filter (\<lambda>s. section_day s = fst entry) fetched). section_time mp s \<noteq> None"
      using times by simp
    then have sorted_by: "Day_sections mp (filter (\<lambda>s. section_day s = fst entry) fetched)
        = sort_key (start_number mp) (filter (\<lambda>s. section_day s = fst entry) fetched)"
      by (rule Day_sections_sort_key)
    have "filter (\<lambda>s. start_number mp s = t)
          (sort_key (start_number mp) (filter (\<lambda>s. section_day s = fst entry) fetched))
        = filter (\<lambda>s. section_day s = fst entry \<and> start_number mp s = t) fetched" for t
      by (simp add: sort_key_stable conj_commute)
    then show ?thesis
      by (simp add: item sorted_by group)
  qed
  show ?thesis
    using first second third by blast
qed

theorem days_in_week_order_witness:
  "map fst (render_days (\<lambda>t f. if t = ''09:00:00'' then Some 32400000 else Some 37800000) (updateCourse_sections (initial_state \<lparr>course_id = 7, course_name = ''CS61A'',
          enrollmentStart = Some 100, enrollmentEnd = Some 200\<rparr>) [\<lparr>section_id = 1, defaultSpacetime = \<lparr>spacetime_dayOfWeek = ''Wednesday'',
          spacetime_startTime = ''10:30:00'', spacetime_location = ''Soda 310''\<rparr>,
        capacity = 5, enrolledStudents = 2\<rparr>,
       \<lparr>section_id = 2, defaultSpacetime = \<lparr>spacetime_dayOfWeek = ''Monday'',
          spacetime_startTime = ''10:30:00'', spacetime_location = ''Cory 540''\<rparr>,
        capacity = 5, enrolledStudents = 2\<rparr>,
       \<lparr>section_id = 3, defaultSpacetime = \<lparr>spacetime_dayOfWeek = ''Monday'',
          spacetime_startTime = ''09:00:00'', spacetime_location = ''Soda 320''\<rparr>,
        capacity = 5, enrolledStudents = 2\<rparr>,
       \<lparr>section_id = 4, defaultSpacetime = \<lparr>spacetime_dayOfWeek = ''Monday'',
          spacetime_startTime = ''10:30:00'', spacetime_location = ''Evans 9''\<rparr>,
        capacity = 5, enrolledStudents = 2\<rparr>])) = [''Monday'', ''Wednesday'']
   \<and> map snd (render_days (\<lambda>t f. if t = ''09:00:00'' then Some 32400000 else Some 37800000) (updateCourse_sections (initial_state \<lparr>course_id = 7, course_name = ''CS61A'',
          enrollmentStart = Some 100, enrollmentEnd = Some 200\<rparr>) [\<lparr>section_id = 1, defaultSpacetime = \<lparr>spacetime_dayOfWeek = ''Wednesday'',
          spacetime_startTime = ''10:30:00'', spacetime_location = ''Soda 310''\<rparr>,
        capacity = 5, enrolledStudents = 2\<rparr>,
       \<lparr>section_id = 2, defaultSpacetime = \<lparr>spacetime_dayOfWeek = ''Monday'',
          spacetime_startTime = ''10:30:00'', spacetime_location = ''Cory 540''\<rparr>,
        capacity = 5, enrolledStudents = 2\<rparr>,
       \<lparr>section_id = 3, defaultSpacetime = \<lparr>spacetime_dayOfWeek = ''Monday'',
          spacetime_startTime = ''09:00:00'', spacetime_location = ''Soda 320''\<rparr>,
        capacity = 5, enrolledStudents = 2\<rparr>,
       \<lparr>section_id = 4, defaultSpacetime = \<lparr>spacetime_dayOfWeek = ''Monday'',
          spacetime_startTime = ''10:30:00'', spacetime_location = ''Evans 9''\<rparr>,
        capacity = 5, enrolledStudents = 2\<rparr>]))
      = [[\<lparr>section_id = 3, defaultSpacetime = \<lparr>spacetime_dayOfWeek = ''Monday'',
          spacetime_startTime = ''09:00:00'', spacetime_location = ''Soda 320''\<rparr>,
        capacity = 5, enrolledStudents = 2\<rparr>, \<lparr>section_id = 2, defaultSpacetime = \<lparr>spacetime_dayOfWeek = ''Monday'',
          spacetime_startTime = ''10:30:00'', spacetime_location = ''Cory 540''\<rparr>,
        capacity = 5, enrolledStudents = 2\<rparr>, \<lparr>section_id = 4, defaultSpacetime = \<lparr>spacetime_dayOfWeek = ''Monday'',
          spacetime_startTime = ''10:30:00'', spacetime_location = ''Evans 9''\<rparr>,
        capacity = 5, enrolledStudents = 2\<rparr>], [\<lparr>section_id = 1, defaultSpacetime = \<lparr>spacetime_dayOfWeek = ''Wednesday'',
          spacetime_startTime = ''10:30:00'', spacetime_location = ''Soda 310''\<rparr>,
        capacity = 5, enrolledStudents = 2\<rparr>]]"
proof -
  let ?fetched = "[\<lparr>section_id = 1, defaultSpacetime = \<lparr>spacetime_dayOfWeek = ''Wednesday'',
          spacetime_startTime = ''10:30:00'', spacetime_location = ''Soda 310''\<rparr>,
        capacity = 5, enrolledStudents = 2\<rparr>,
       \<lparr>section_id = 2, defaultSpacetime = \<lparr>spacetime_dayOfWeek = ''Monday'',
          spacetime_startTime = ''10:30:00'', spacetime_location = ''Cory 540''\<rparr>,
        capacity = 5, enrolledStudents = 2\<rparr>,
       \<lparr>section_id = 3, defaultSpacetime = \<lparr>spacetime_dayOfWeek = ''Monday'',
          spacetime_startTime = ''09:00:00'', spacetime_location = ''Soda 320''\<rparr>,
        capacity = 5, enrolledStudents = 2\<rparr>,
       \<lparr>section_id = 4, defaultSpacetime = \<lparr>spacetime_dayOfWeek = ''Monday'',
          spacetime_startTime = ''10:30:00'', spacetime_location = ''Evans 9''\<rparr>,
        capacity = 5, enrolledStudents = 2\<rparr>]"
  let ?mp = "(\<lambda>t f. if t = ''09:00:00'' then Some 32400000 else Some 37800000)"
  have days: "\<forall>s \<in> set ?fetched. section_day s \<in> set (map fst dayOfWeek)"
    by (simp add: section_day_def dayOfWeek_def)
  have times: "\<forall>s \<in> set ?fetched. section_time ?mp s \<noteq> None"
    by (simp add: section_time_def)
  have "map fst (render_days ?mp (updateCourse_sections (initial_state \<lparr>course_id = 7, course_name = ''CS61A'',
          enrollmentStart = Some 100, enrollmentEnd = Some 200\<rparr>) ?fetched)) = [''Monday'', ''Wednesday'']"
    using days_in_week_order [OF days times, THEN conjunct1] by (simp add: section_day_def)
  moreover have "map snd (render_days ?mp (updateCourse_sections (initial_state \<lparr>course_id = 7, course_name = ''CS61A'',
          enrollmentStart = Some 100, enrollmentEnd = Some 200\<rparr>) ?fetched))
      = [[\<lparr>section_id = 3, defaultSpacetime = \<lparr>spacetime_dayOfWeek = ''Monday'',
          spacetime_startTime = ''09:00:00'', spacetime_location = ''Soda 320''\<rparr>,
        capacity = 5, enrolledStudents = 2\<rparr>, \<lparr>section_id = 2, defaultSpacetime = \<lparr>spacetime_dayOfWeek = ''Monday'',
          spacetime_startTime = ''10:30:00'', spacetime_location = ''Cory 540''\<rparr>,
        capacity = 5, enrolledStudents = 2\<rparr>, \<lparr>section_id = 4, defaultSpacetime = \<lparr>spacetime_dayOfWeek = ''Monday'',
          spacetime_startTime = ''10:30:00'', spacetime_location = ''Evans 9''\<rparr>,
        capacity = 5, enrolledStudents = 2\<rparr>], [\<lparr>section_id = 1, defaultSpacetime = \<lparr>spacetime_dayOfWeek = ''Wednesday'',
          spacetime_startTime = ''10:30:00'', spacetime_location = ''Soda 310''\<rparr>,
        capacity = 5, enrolledStudents = 2\<rparr>]]"
    by (simp add: render_days_def updateCourse_sections_def groupBy_def Object_entries_def
        Array_sort_def dayComparator_def dayOfWeek_def js_sub_def sort_order_def Day_sections_def)
  ultimately show ?thesis
    by (rule conjI)
qed

section \<open>Properties of DropSection\<close>

lemma user_step_not_dropped:
  assumes "user_event e" and "drop_step s e = Some s'" and "stage s \<noteq> DROPPED"
  shows "stage s' \<noteq> DROPPED"
  using assms
  by (cases e; cases "stage s") (auto simp add: user_event_def performDrop_def)

lemma quiet_step:
  assumes "drop_step s e = Some s'" and "e \<noteq> Click_Confirm"
    and "stage s \<noteq> DROPPED" and "in_flight s = 0"
  shows "stage s' \<noteq> DROPPED \<and> in_flight s' = 0"
  using assms by (cases e; cases "stage s") auto

lemma dropped_needs_confirm:
  assumes "drop_run s es = Some s'" and "stage s \<noteq> DROPPED" and "in_flight s = 0"
    and "stage s' = DROPPED \<or> 0 < in_flight s'"
  shows "Click_Confirm \<in> set es"
  using assms
proof (induction es arbitrary: s)
  case Nil
  then show ?case by simp
next
  case (Cons e es)
  show ?case
  proof (cases "e = Click_Confirm")
    case True
    then show ?thesis by simp
  next
    case False
    obtain s1 where step: "drop_step s e = Some s1" and rest: "drop_run s1 es = Some s'"
      using Cons.prems(1) by (auto split: option.splits)
    have "stage s1 \<noteq> DROPPED \<and> in_flight s1 = 0"
      using step False Cons.prems(2,3) by (rule quiet_step)
    then have "Click_Confirm \<in> set es"
      using Cons.IH [OF rest] Cons.prems(4) by simp
    then show ?thesis by simp
  qed
qed

lemma calls_count_confirms:
  "drop_run s es = Some s' \<Longrightarrow> drop_calls s' = drop_calls s + count_list es Click_Confirm"
proof (induction es arbitrary: s)
  case Nil
  then show ?case by simp
next
  case (Cons e es)
  obtain s1 where step: "drop_step s e = Some s1" and rest: "drop_run s1 es = Some s'"
    using Cons.prems by (auto split: option.splits)
  have "drop_calls s1 = drop_calls s + (if e = Click_Confirm then 1 else 0)"
    using step by (cases e) (auto simp add: performDrop_def split: if_splits)
  then show ?case
    using Cons.IH [OF rest] by simp
qed

text \<open>
  C6 as stated fails in two places. Confirm does not change the stage: it sends the
  request and the stage stays \<open>CONFIRM\<close>. And a step from \<open>INITIAL\<close> straight to \<open>DROPPED\<close>
  is reachable: Drop, Confirm, then closing the modal while the request is pending leaves
  the component at \<open>INITIAL\<close>, and the request's completion sets \<open>DROPPED\<close> from there.
\<close>

theorem initial_to_dropped_reachable:
  "drop_step \<lparr>stage = CONFIRM, drop_calls = 0, in_flight = 0\<rparr> Click_Confirm
     = Some \<lparr>stage = CONFIRM, drop_calls = 1, in_flight = 1\<rparr>
   \<and> drop_run DropSection_initial [Click_Drop, Click_Confirm, Close_Modal]
     = Some \<lparr>stage = INITIAL, drop_calls = 1, in_flight = 1\<rparr>
   \<and> drop_step \<lparr>stage = INITIAL, drop_calls = 1, in_flight = 1\<rparr> Drop_Fulfilled
     = Some \<lparr>stage = DROPPED, drop_calls = 1, in_flight = 0\<rparr>"
  by (simp add: DropSection_initial_def performDrop_def)

text \<open>
  C6, amended. The workflow has the three stages. Drop takes \<open>INITIAL\<close> to \<open>CONFIRM\<close>;
  closing the modal takes \<open>CONFIRM\<close> to \<open>INITIAL\<close>, and Drop followed by closing the modal
  gives back the initial state, no request sent; Confirm at \<open>CONFIRM\<close> followed by the
  request's fulfilment ends at \<open>DROPPED\<close> with one request sent; Confirm is not possible
  at \<open>INITIAL\<close>; no user action leads into \<open>DROPPED\<close>; and every run from the initial
  state that reaches \<open>DROPPED\<close> contains a Confirm.
\<close>

theorem drop_workflow:
  "(UNIV :: stage set) = {INITIAL, CONFIRM, DROPPED}
   \<and> (stage s = INITIAL \<longrightarrow> drop_step s Click_Drop = Some (s\<lparr>stage := CONFIRM\<rparr>))
   \<and> (stage s = CONFIRM \<longrightarrow> drop_step s Close_Modal = Some (s\<lparr>stage := INITIAL\<rparr>))
   \<and> drop_run DropSection_initial [Click_Drop, Close_Modal] = Some DropSection_initial
   \<and> (stage s = CONFIRM \<longrightarrow>
        drop_run s [Click_Confirm, Drop_Fulfilled]
          = Some (s\<lparr>stage := DROPPED, drop_calls := drop_calls s + 1\<rparr>))
   \<and> (stage s = INITIAL \<longrightarrow> drop_step s Click_Confirm = None)
   \<and> (user_event e \<and> stage s \<noteq> DROPPED \<and> drop_step s e = Some s' \<longrightarrow> stage s' \<noteq> DROPPED)
   \<and> (drop_run DropSection_initial es = Some s'' \<and> stage s'' = DROPPED
        \<longrightarrow> Click_Confirm \<in> set es)"
proof -
  have states: "(UNIV :: stage set) = {INITIAL, CONFIRM, DROPPED}"
    using stage.exhaust by auto
  have request: "stage s = INITIAL \<longrightarrow> drop_step s Click_Drop = Some (s\<lparr>stage := CONFIRM\<rparr>)"
    by simp
  have cancel: "stage s = CONFIRM \<longrightarrow> drop_step s Close_Modal = Some (s\<lparr>stage := INITIAL\<rparr>)"
    by simp
  have round_trip: "drop_run DropSection_initial [Click_Drop, Close_Modal] = Some DropSection_initial"
    by (simp add: DropSection_initial_def)
  have confirm: "stage s = CONFIRM \<longrightarrow>
      drop_run s [Click_Confirm, Drop_Fulfilled]
        = Some (s\<lparr>stage := DROPPED, drop_calls := drop_calls s + 1\<rparr>)"
    by (simp add: performDrop_def)
  have refused: "stage s = INITIAL \<longrightarrow> drop_step s Click_Confirm = None"
    by simp
  have user: "user_event e \<and> stage s \<noteq> DROPPED \<and> drop_step s e = Some s' \<longrightarrow> stage s' \<noteq> DROPPED"
    using user_step_not_dropped by blast
  have confirmed: "drop_run DropSection_initial es = Some s'' \<and> stage s'' = DROPPED
      \<longrightarrow> Click_Confirm \<in> set es"
    using dropped_needs_confirm [of DropSection_initial es s'']
    by (simp add: DropSection_initial_def)
  show ?thesis
    using states request cancel round_trip confirm refused user confirmed by (intro conjI)
qed

theorem drop_workflow_witness:
  "drop_run DropSection_initial [Click_Drop, Click_Confirm, Drop_Fulfilled]
     = Some \<lparr>stage = DROPPED, drop_calls = 1, in_flight = 0\<rparr>
   \<and> Click_Confirm \<in> set [Click_Drop, Click_Confirm, Drop_Fulfilled]
   \<and> drop_step DropSection_initial Click_Drop = Some \<lparr>stage = CONFIRM, drop_calls = 0, in_flight = 0\<rparr>
   \<and> drop_step DropSection_initial Click_Confirm = None"
  using drop_workflow [of DropSection_initial Click_Drop
      "\<lparr>stage = CONFIRM, drop_calls = 0, in_flight = 0\<rparr>"
      "[Click_Drop, Click_Confirm, Drop_Fulfilled]"
      "\<lparr>stage = DROPPED, drop_calls = 1, in_flight = 0\<rparr>"]
  by (simp add: DropSection_initial_def performDrop_def)

lemma other_step_not_dropped:
  assumes "drop_step s e = Some s'" and "e \<noteq> Drop_Fulfilled" and "stage s \<noteq> DROPPED"
  shows "stage s' \<noteq> DROPPED"
proof (cases e)
  case Click_Drop
  then show ?thesis using assms by (auto split: if_splits)
next
  case Close_Modal
  then show ?thesis using assms by (auto split: if_splits)
next
  case Click_Confirm
  then show ?thesis using assms by (auto simp add: performDrop_def split: if_splits)
next
  case Drop_Fulfilled
  then show ?thesis using assms by simp
next
  case Drop_Rejected
  then show ?thesis using assms by (auto split: if_splits)
qed

lemma dropped_needs_fulfilment:
  assumes "drop_run s es = Some s'" and "stage s \<noteq> DROPPED" and "Drop_Fulfilled \<notin> set es"
  shows "stage s' \<noteq> DROPPED"
  using assms
proof (induction es arbitrary: s)
  case Nil
  then show ?case by simp
next
  case (Cons e es)
  obtain s1 where step: "drop_step s e = Some s1" and rest: "drop_run s1 es = Some s'"
    using Cons.prems(1) by (auto split: option.splits)
  have other: "e \<noteq> Drop_Fulfilled" and later: "Drop_Fulfilled \<notin> set es"
    using Cons.prems(3) by auto
  from step other Cons.prems(2) have "stage s1 \<noteq> DROPPED"
    by (rule other_step_not_dropped)
  then show ?case
    using Cons.IH [OF rest _ later] by simp
qed

text \<open>
  C7 as stated fails: after Confirm the request is pending and the stage is still
  \<open>CONFIRM\<close>, not \<open>DROPPED\<close>; if the request's promise is rejected the stage stays
  \<open>CONFIRM\<close>.
\<close>

theorem confirm_not_optimistic:
  "drop_run DropSection_initial [Click_Drop, Click_Confirm]
     = Some \<lparr>stage = CONFIRM, drop_calls = 1, in_flight = 1\<rparr>
   \<and> drop_run DropSection_initial [Click_Drop, Click_Confirm, Drop_Rejected]
     = Some \<lparr>stage = CONFIRM, drop_calls = 1, in_flight = 0\<rparr>"
  by (simp add: DropSection_initial_def performDrop_def)

text \<open>
  C7, amended. Confirm at \<open>CONFIRM\<close> sends exactly one drop request (a run from the
  initial state has sent as many requests as it holds Confirms), and the click itself
  leaves the stage where it is, at \<open>CONFIRM\<close>, with the request pending. The stage
  becomes \<open>DROPPED\<close> only by the fulfilment of a pending request's promise: that is the
  only step into \<open>DROPPED\<close>, no run without a fulfilment reaches \<open>DROPPED\<close>, and the
  fulfilment sets \<open>DROPPED\<close> from whichever stage the component is at by then. A
  rejected promise changes nothing but the number of pending requests: the stage stays
  what it was, and nothing is undone or reported.
\<close>

theorem confirm_fires_one_call:
  "(stage s = CONFIRM \<longrightarrow> drop_step s Click_Confirm = Some (performDrop s))
   \<and> drop_calls (performDrop s) = drop_calls s + 1
   \<and> in_flight (performDrop s) = in_flight s + 1
   \<and> stage (performDrop s) = stage s
   \<and> (drop_run DropSection_initial es = Some s'
        \<longrightarrow> drop_calls s' = count_list es Click_Confirm)
   \<and> (0 < in_flight s \<longrightarrow>
        drop_step s Drop_Fulfilled = Some (s\<lparr>stage := DROPPED, in_flight := in_flight s - 1\<rparr>))
   \<and> (0 < in_flight s \<longrightarrow>
        drop_step s Drop_Rejected = Some (s\<lparr>in_flight := in_flight s - 1\<rparr>))
   \<and> (drop_step s e = Some s'' \<and> stage s \<noteq> DROPPED \<and> stage s'' = DROPPED
        \<longrightarrow> e = Drop_Fulfilled)
   \<and> (drop_run DropSection_initial es = Some s' \<and> Drop_Fulfilled \<notin> set es
        \<longrightarrow> stage s' \<noteq> DROPPED)"
proof -
  have click: "stage s = CONFIRM \<longrightarrow> drop_step s Click_Confirm = Some (performDrop s)"
    by simp
  have sent: "drop_calls (performDrop s) = drop_calls s + 1"
    "in_flight (performDrop s) = in_flight s + 1" "stage (performDrop s) = stage s"
    by (simp_all add: performDrop_def)
  have counted: "drop_run DropSection_initial es = Some s'
      \<longrightarrow> drop_calls s' = count_list es Click_Confirm"
    using calls_count_confirms [of DropSection_initial es s']
    by (simp add: DropSection_initial_def)
  have fulfilled: "0 < in_flight s \<longrightarrow>
      drop_step s Drop_Fulfilled = Some (s\<lparr>stage := DROPPED, in_flight := in_flight s - 1\<rparr>)"
    by simp
  have rejected: "0 < in_flight s \<longrightarrow>
      drop_step s Drop_Rejected = Some (s\<lparr>in_flight := in_flight s - 1\<rparr>)"
    by simp
  have only: "drop_step s e = Some s'' \<and> stage s \<noteq> DROPPED \<and> stage s'' = DROPPED
      \<longrightarrow> e = Drop_Fulfilled"
    using other_step_not_dropped [of s e s''] by blast
  have never: "drop_run DropSection_initial es = Some s' \<and> Drop_Fulfilled \<notin> set es
      \<longrightarrow> stage s' \<noteq> DROPPED"
    using dropped_needs_fulfilment [of DropSection_initial es s']
    by (simp add: DropSection_initial_def)
  show ?thesis
    using click sent counted fulfilled rejected only never by (intro conjI)
qed

theorem confirm_fires_one_call_witness:
  "drop_step \<lparr>stage = CONFIRM, drop_calls = 0, in_flight = 0\<rparr> Click_Confirm
     = Some \<lparr>stage = CONFIRM, drop_calls = 1, in_flight = 1\<rparr>
   \<and> drop_step \<lparr>stage = INITIAL, drop_calls = 1, in_flight = 1\<rparr> Drop_Rejected
     = Some \<lparr>stage = INITIAL, drop_calls = 1, in_flight = 0\<rparr>
   \<and> drop_step \<lparr>stage = INITIAL, drop_calls = 1, in_flight = 1\<rparr> Drop_Fulfilled
     = Some \<lparr>stage = DROPPED, drop_calls = 1, in_flight = 0\<rparr>"
  using confirm_fires_one_call [THEN conjunct1,
      of "\<lparr>stage = CONFIRM, drop_calls = 0, in_flight = 0\<rparr>"]
    confirm_fires_one_call [THEN conjunct2, THEN conjunct2, THEN conjunct2, THEN conjunct2,
      THEN conjunct2, THEN conjunct1,
      of "\<lparr>stage = INITIAL, drop_calls = 1, in_flight = 1\<rparr>"]
    confirm_fires_one_call [THEN conjunct2, THEN conjunct2, THEN conjunct2, THEN conjunct2,
      THEN conjunct2, THEN conjunct2, THEN conjunct1,
      of "\<lparr>stage = INITIAL, drop_calls = 1, in_flight = 1\<rparr>"]
  by (simp add: performDrop_def)

end
